theory Spec2Isabelle
  imports Complex_Main "HOL-Library.Log_Nat"
begin

section \<open>JavaScript values used by the eBay client\<close>

text \<open>
  Strings are HOL strings. A Number that the code computes with or compares (the expiry
  of a token, a similarity score) is a double, \<open>jsnum\<close> below, and a member of a parsed
  JSON document that the code computes with is a \<open>jsvalue\<close>, whatever the document
  holds there. HTTP status codes and lengths are \<open>nat\<close>; a clock reading is the
  integer number of milliseconds that \<open>Date.now()\<close> returns; counts that are only
  copied are \<open>int\<close>; the confidence and the truth scores, which are only copied from
  the reply into the result, are \<open>real\<close>.

  A value that can be thrown is either an \<open>Error\<close> object with its message, or some
  other value: the \<open>catch\<close> block of \<open>searchEbay\<close> tells them apart with
  \<open>error instanceof Error\<close>.
\<close>

datatype thrown = Error string | NonError

text \<open>Truthiness of an optional string: \<open>undefined\<close> and \<open>''\<close> are falsy.\<close>

definition truthy :: "string option \<Rightarrow> bool" where
  "truthy v = (case v of None \<Rightarrow> False | Some s \<Rightarrow> s \<noteq> [])"

text \<open>An optional string inside a template literal: \<open>undefined\<close> is spelled out.\<close>

definition interpolate :: "string option \<Rightarrow> string" where
  "interpolate v = (case v of None \<Rightarrow> ''undefined'' | Some s \<Rightarrow> s)"

text \<open>Decimal rendering of a non-negative integer inside a template literal.\<close>

definition digit_char :: "nat \<Rightarrow> char" where
  "digit_char d = char_of (48 + d)"

function nat_to_string :: "nat \<Rightarrow> string" where
  "nat_to_string n =
     (if n < 10 then [digit_char n]
      else nat_to_string (n div 10) @ [digit_char (n mod 10)])"
  by pat_completeness auto
termination
  by (relation "measure (\<lambda>n. n)") auto

declare nat_to_string.simps [simp del]

subsection \<open>Numbers\<close>

text \<open>
  A Number is a double: a finite value, one of the two infinities, or NaN. A finite
  value is carried as the real number it denotes; the two zeros are one value, which no
  operation of this code tells apart.
\<close>

datatype jsnum = Finite real | PosInfinity | NegInfinity | NaN

text \<open>
  Rounding a real to the nearest double, ties to the even significand. The binary
  exponent of \<open>x > 0\<close> is the \<open>e\<close> with \<open>2^e \<le> x < 2^(e+1)\<close>, kept within the
  exponents of the format; the significand has 53 bits, so the doubles around \<open>x\<close> are
  the multiples of \<open>2^(e-52)\<close>. A significand of \<open>2^53\<close> at the largest exponent is
  \<open>2^1024\<close>, beyond the largest double: the result is infinite.
\<close>

definition exponent_of :: "real \<Rightarrow> int" where
  "exponent_of x =
     (let e = (if x \<ge> 1 then bitlen \<lfloor>x\<rfloor> - 1 else - bitlen (\<lceil>1 / x\<rceil> - 1))
      in max (- 1022) (min 1023 e))"

definition ulp_of :: "real \<Rightarrow> real" where
  "ulp_of x = 2 powi (exponent_of \<bar>x\<bar> - 52)"

definition round_half_even :: "real \<Rightarrow> int" where
  "round_half_even q =
     (let f = \<lfloor>q\<rfloor>; d = q - of_int f
      in if d < 1 / 2 then f else if d > 1 / 2 then f + 1 else if even f then f else f + 1)"

definition round_double :: "real \<Rightarrow> jsnum" where
  "round_double x =
     (if x = 0 then Finite 0
      else let n = round_half_even (x / ulp_of x)
           in if exponent_of \<bar>x\<bar> = 1023 \<and> 2 ^ 53 \<le> \<bar>n\<bar>
              then (if 0 < x then PosInfinity else NegInfinity)
              else Finite (of_int n * ulp_of x))"

text \<open>The arithmetic of the language on Numbers: \<open>+\<close>, \<open>*\<close>, unary and binary \<open>-\<close>, \<open>>\<close>.\<close>

fun js_add :: "jsnum \<Rightarrow> jsnum \<Rightarrow> jsnum" where
  "js_add NaN b = NaN"
| "js_add a NaN = NaN"
| "js_add PosInfinity NegInfinity = NaN"
| "js_add NegInfinity PosInfinity = NaN"
| "js_add PosInfinity b = PosInfinity"
| "js_add a PosInfinity = PosInfinity"
| "js_add NegInfinity b = NegInfinity"
| "js_add a NegInfinity = NegInfinity"
| "js_add (Finite a) (Finite b) = round_double (a + b)"

fun js_neg :: "jsnum \<Rightarrow> jsnum" where
  "js_neg NaN = NaN"
| "js_neg PosInfinity = NegInfinity"
| "js_neg NegInfinity = PosInfinity"
| "js_neg (Finite a) = Finite (- a)"

definition js_sub :: "jsnum \<Rightarrow> jsnum \<Rightarrow> jsnum" where
  "js_sub a b = js_add a (js_neg b)"

text \<open>The sign of a Number that is not NaN: 1, 0 or -1.\<close>

fun js_sign :: "jsnum \<Rightarrow> int" where
  "js_sign (Finite a) = (if a > 0 then 1 else if a < 0 then - 1 else 0)"
| "js_sign PosInfinity = 1"
| "js_sign NegInfinity = - 1"
| "js_sign NaN = 0"

fun js_mul :: "jsnum \<Rightarrow> jsnum \<Rightarrow> jsnum" where
  "js_mul NaN b = NaN"
| "js_mul a NaN = NaN"
| "js_mul (Finite a) (Finite b) = round_double (a * b)"
| "js_mul a b =
     (if js_sign a * js_sign b > 0 then PosInfinity
      else if js_sign a * js_sign b < 0 then NegInfinity
      else NaN)"

fun js_gt :: "jsnum \<Rightarrow> jsnum \<Rightarrow> bool" where
  "js_gt NaN b = False"
| "js_gt a NaN = False"
| "js_gt (Finite a) (Finite b) = (a > b)"
| "js_gt PosInfinity PosInfinity = False"
| "js_gt PosInfinity b = True"
| "js_gt a PosInfinity = False"
| "js_gt NegInfinity b = False"
| "js_gt a NegInfinity = True"

text \<open>
  \<open>v > 0\<close>. A comparator result is read through this test by \<open>Array.prototype.sort\<close>:
  a result of NaN counts as 0, and so do \<open>0\<close> and every negative Number here.
\<close>

definition js_positive :: "jsnum \<Rightarrow> bool" where
  "js_positive v = js_gt v (Finite 0)"




subsection \<open>Members of a parsed JSON document\<close>

text \<open>
  What reading a member of a parsed JSON document can give: \<open>undefined\<close> when the
  member is missing, or the value that \<open>JSON.parse\<close> built. An array or an object is
  carried as the string that its conversion to a primitive yields (the joined elements
  of an array, \<open>[object Object]\<close> for a plain object), which is all that arithmetic
  sees of it.
\<close>

datatype jsvalue =
    JUndefined
  | JNull
  | JBool bool
  | JNumber jsnum
  | JString string
  | JObject string

section \<open>The eBay Browse API client (src/lib/search/ebay.ts)\<close>

subsection \<open>Data\<close>

record Price =
  pr_value :: string
  pr_currency :: string

record Seller =
  username :: string
  feedbackPercentage :: string
  feedbackScore :: int

record Category =
  categoryId :: string
  categoryName :: string

record ItemLocation =
  city :: string
  stateOrProvince :: string
  country :: string

text \<open>
  \<open>EbayProduct\<close>. The interface declares \<open>price\<close> as required, but
  \<open>ebayProductToFinding\<close> tests it for presence, so it is optional here as the other
  optional members are.
\<close>

record EbayProduct =
  itemId :: string
  p_title :: string
  itemWebUrl :: string
  p_price :: "Price option"
  image :: "string option"
  p_condition :: string
  seller :: "Seller option"
  p_categories :: "Category list option"
  itemLocation :: "ItemLocation option"

text \<open>
  \<open>EbaySearchResponse\<close>, the members that \<open>searchEbay\<close> reads: \<open>total\<close> and
  \<open>itemSummaries\<close>.
\<close>

record EbaySearchResponse =
  resp_total :: int
  itemSummaries :: "EbayProduct list option"

record EbaySearchResult =
  success :: bool
  products :: "EbayProduct list"
  total :: int
  searchQuery :: string
  error :: "string option"

text \<open>
  The body of a successful OAuth token response, as \<open>response.json()\<close> gives it. The
  code multiplies \<open>expires_in\<close> without looking at it, so it is whatever the body
  holds.
\<close>

record TokenResponse =
  access_token :: string
  expires_in :: jsvalue

text \<open>The module-level token cache: \<open>cachedToken\<close>.\<close>

record CachedToken =
  token :: string
  expiresAt :: jsnum

subsection \<open>The outside world\<close>

text \<open>
  \<open>fetch\<close> either rejects (a network error) or resolves to a response. A response has a
  status; \<open>response.ok\<close> is true exactly for the statuses 200 to 299. Reading the body
  with \<open>response.text()\<close> or \<open>response.json()\<close> is a further asynchronous step that
  can itself reject.
\<close>

record 'a Response =
  status :: nat
  text_body :: "thrown + string"
  json_body :: "thrown + 'a"

definition ok :: "'a Response \<Rightarrow> bool" where
  "ok r = (200 \<le> status r \<and> status r \<le> 299)"

datatype 'a fetch_outcome = Rejects thrown | Resolves "'a Response"

text \<open>The query parameters and the bearer token of one search request.\<close>

record SearchRequest =
  bearer :: string
  q :: string
  limit_param :: int
  offset_param :: int
  filter_param :: "string option"
  sort_param :: "string option"

text \<open>
  Every call that leaves the process is recorded, in order. The token request carries
  the credentials \<open>clientId:clientSecret\<close> (sent base64-encoded), the search request
  its parameters.
\<close>

datatype external_call =
    OAuthTokenRequest string
  | BrowseSearchRequest SearchRequest
  | ClaudeMessagesCreate

text \<open>
  What the scoring oracle's reply turns out to be. \<open>CallThrows\<close>: the call
  \<open>anthropic.messages.create\<close> rejects, or the reply has no first content block and
  reading its \<open>type\<close> throws. \<open>NonTextBlock\<close>: the first block is not of type
  text. \<open>TextBlock\<close>: the first block is a text.
\<close>

datatype claude_outcome = CallThrows thrown | NonTextBlock | TextBlock string

text \<open>
  An element of \<open>product_analyses\<close>. The code annotates it
  \<open>{ item_id: string; similarity_score: number; analysis: string }\<close>, an annotation
  that is erased: \<open>similarity_score\<close> is whatever the reply holds there.
\<close>

record ProductAnalysis =
  pa_item_id :: string
  pa_similarity_score :: jsvalue
  analysis :: string

record TruthScores =
  objective_truth :: real
  practical_truth :: real
  completeness :: real
  contextual_scope :: real

text \<open>
  The parsed analysis. The members other than \<open>product_analyses\<close> are stored into
  the fields of a \<open>NoveltyResult\<close> and carry the types of those fields.
  \<open>product_analyses\<close> may be absent (\<open>?.\<close> and \<open>|| []\<close> in the code).
\<close>

record AnalysisResult =
  ar_is_novel :: bool
  ar_confidence :: real
  product_analyses :: "ProductAnalysis list option"
  ar_summary :: string
  ar_truth_scores :: TruthScores

text \<open>
  One run of the agent sees one world: the environment variables, the clock readings,
  the outcome of each external call, and the two functions of the runtime that the code
  relies on: \<open>JSON.parse\<close> and the conversion of a string to a Number.
  \<open>JSON_parse s = Inl e\<close> stands for every way in which \<open>JSON.parse\<close> and the
  evaluation that follows it throw inside the \<open>try\<close> block (a syntax error,
  \<open>null\<close>, a \<open>product_analyses\<close> that is no array, a \<open>null\<close> element, a score
  object whose conversion to a primitive throws). Likewise a \<open>json_body\<close> that is
  \<open>Inl e\<close> stands for every way in which reading and using the body throws.
\<close>

record world =
  EBAY_CLIENT_ID :: "string option"
  EBAY_CLIENT_SECRET :: "string option"
  Date_now :: int
  new_Date :: int
  oauth_fetch :: "TokenResponse fetch_outcome"
  search_fetch :: "EbaySearchResponse fetch_outcome"
  claude_create :: claude_outcome
  JSON_parse :: "string \<Rightarrow> thrown + AnalysisResult"
  StringToNumber :: "string \<Rightarrow> jsnum"

text \<open>
  The conversion that \<open>*\<close> and \<open>-\<close> apply to an operand: \<open>undefined\<close> is NaN,
  \<open>null\<close> is 0, \<open>true\<close> is 1, a string is converted by the runtime, an array or an
  object through its primitive.
\<close>

definition ToNumber :: "world \<Rightarrow> jsvalue \<Rightarrow> jsnum" where
  "ToNumber w v =
     (case v of
        JUndefined \<Rightarrow> NaN
      | JNull \<Rightarrow> Finite 0
      | JBool b \<Rightarrow> Finite (if b then 1 else 0)
      | JNumber n \<Rightarrow> n
      | JString s \<Rightarrow> StringToNumber w s
      | JObject s \<Rightarrow> StringToNumber w s)"

text \<open>The state of the module: the token cache, and the trace of external calls.\<close>

record module_state =
  cachedToken :: "CachedToken option"
  calls :: "external_call list"

subsection \<open>getAccessToken\<close>

definition credentials_missing_message :: string where
  "credentials_missing_message =
     ''eBay API credentials not configured. Please set EBAY_CLIENT_ID and EBAY_CLIENT_SECRET environment variables. ''
     @ ''Get your credentials at: https://developer.ebay.com/my/keys''"

text \<open>
  The part of \<open>getAccessToken\<close> after the cache test: the OAuth request. The expiry
  is \<open>now + data.expires_in * 1000\<close>, in the arithmetic of the language.
\<close>

definition request_token :: "world \<Rightarrow> int \<Rightarrow> module_state \<Rightarrow> (thrown + string) \<times> module_state" where
  "request_token w now s =
     (let credentials = interpolate (EBAY_CLIENT_ID w) @ '':'' @ interpolate (EBAY_CLIENT_SECRET w);
          s1 = s\<lparr>calls := calls s @ [OAuthTokenRequest credentials]\<rparr>
      in case oauth_fetch w of
           Rejects e \<Rightarrow> (Inl e, s1)
         | Resolves response \<Rightarrow>
             if \<not> ok response
             then (case text_body response of
                     Inl e \<Rightarrow> (Inl e, s1)
                   | Inr errorText \<Rightarrow>
                       (Inl (Error (''eBay OAuth failed ('' @ nat_to_string (status response)
                                    @ ''): '' @ errorText)), s1))
             else (case json_body response of
                     Inl e \<Rightarrow> (Inl e, s1)
                   | Inr data \<Rightarrow>
                       (Inr (access_token data),
                        s1\<lparr>cachedToken :=
                             Some \<lparr>token = access_token data,
                                   expiresAt =
                                     js_add (Finite (of_int now))
                                       (js_mul (ToNumber w (expires_in data)) (Finite 1000))\<rparr>\<rparr>)))"

definition getAccessToken :: "world \<Rightarrow> module_state \<Rightarrow> (thrown + string) \<times> module_state" where
  "getAccessToken w s =
     (if \<not> truthy (EBAY_CLIENT_ID w) \<or> \<not> truthy (EBAY_CLIENT_SECRET w)
      then (Inl (Error credentials_missing_message), s)
      else
        let now = Date_now w in
        case cachedToken s of
          Some t \<Rightarrow>
            if js_gt (expiresAt t) (js_add (Finite (of_int now)) (Finite (5 * 60 * 1000)))
            then (Inr (token t), s)
            else request_token w now s
        | None \<Rightarrow> request_token w now s)"

subsection \<open>searchEbay\<close>

record SearchOptions =
  opt_limit :: "int option"
  opt_offset :: "int option"
  opt_filter :: "string option"
  opt_sort :: "string option"

definition no_options :: SearchOptions where
  "no_options = \<lparr>opt_limit = None, opt_offset = None, opt_filter = None, opt_sort = None\<rparr>"

text \<open>\<open>if (filter) params.append('filter', filter)\<close>: only a truthy value is sent.\<close>

definition if_truthy :: "string option \<Rightarrow> string option" where
  "if_truthy v = (if truthy v then v else None)"

text \<open>The body of the \<open>try\<close> block: its result is a thrown value or the success record.\<close>

definition searchEbay_try ::
    "string \<Rightarrow> SearchOptions \<Rightarrow> world \<Rightarrow> module_state
      \<Rightarrow> (thrown + EbaySearchResult) \<times> module_state" where
  "searchEbay_try query options w s =
     (let limit = (case opt_limit options of None \<Rightarrow> 20 | Some l \<Rightarrow> l);
          offset = (case opt_offset options of None \<Rightarrow> 0 | Some off \<Rightarrow> off)
      in case getAccessToken w s of
           (Inl e, s1) \<Rightarrow> (Inl e, s1)
         | (Inr accessToken, s1) \<Rightarrow>
             let params = \<lparr>bearer = accessToken, q = query, limit_param = limit,
                           offset_param = offset,
                           filter_param = if_truthy (opt_filter options),
                           sort_param = if_truthy (opt_sort options)\<rparr>;
                 s2 = s1\<lparr>calls := calls s1 @ [BrowseSearchRequest params]\<rparr>
             in case search_fetch w of
                  Rejects e \<Rightarrow> (Inl e, s2)
                | Resolves response \<Rightarrow>
                    if \<not> ok response
                    then (case text_body response of
                            Inl e \<Rightarrow> (Inl e, s2)
                          | Inr errorText \<Rightarrow>
                              if status response = 401
                              then (Inl (Error ''eBay access token expired. Please retry.''),
                                    s2\<lparr>cachedToken := None\<rparr>)
                              else if status response = 429
                              then (Inl (Error ''eBay API rate limit exceeded. Please try again later.''), s2)
                              else (Inl (Error (''eBay search failed ('' @ nat_to_string (status response)
                                                @ ''): '' @ errorText)), s2))
                    else (case json_body response of
                            Inl e \<Rightarrow> (Inl e, s2)
                          | Inr data \<Rightarrow>
                              (Inr \<lparr>success = True,
                                    products = (case itemSummaries data of None \<Rightarrow> [] | Some ps \<Rightarrow> ps),
                                    total = (if resp_total data \<noteq> 0 then resp_total data else 0),
                                    searchQuery = query,
                                    error = None\<rparr>, s2)))"

text \<open>The \<open>catch\<close> block.\<close>

definition error_message :: "thrown \<Rightarrow> string" where
  "error_message e = (case e of Error m \<Rightarrow> m | NonError \<Rightarrow> ''Unknown error occurred'')"

definition searchEbay ::
    "string \<Rightarrow> SearchOptions \<Rightarrow> world \<Rightarrow> module_state \<Rightarrow> EbaySearchResult \<times> module_state" where
  "searchEbay query options w s =
     (case searchEbay_try query options w s of
        (Inr result, s') \<Rightarrow> (result, s')
      | (Inl e, s') \<Rightarrow>
          (\<lparr>success = False, products = [], total = 0, searchQuery = query,
            error = Some (error_message e)\<rparr>, s'))"

subsection \<open>searchSimilarProducts\<close>

text \<open>
  The string operations of the query builder. A character is a code unit below 256.
  \<open>is_space\<close> is the class \<open>\s\<close> on these code units, \<open>toLowerCase\<close> maps the
  upper-case letters among them to lower case.
\<close>

definition is_space :: "char \<Rightarrow> bool" where
  "is_space c = (of_char c \<in> {9, 10, 11, 12, 13, 32, 160 :: nat})"

definition lower_char :: "char \<Rightarrow> char" where
  "lower_char c =
     (let n = (of_char c :: nat)
      in if (65 \<le> n \<and> n \<le> 90) \<or> (192 \<le> n \<and> n \<le> 222 \<and> n \<noteq> 215)
         then char_of (n + 32) else c)"

definition toLowerCase :: "string \<Rightarrow> string" where
  "toLowerCase s = map lower_char s"

text \<open>
  \<open>s.split(/\s+/)\<close>: the pieces between maximal runs of white space. A run at either
  end leaves an empty piece there, and the empty string splits into one empty piece.
\<close>

function split_ws :: "string \<Rightarrow> string list" where
  "split_ws s =
     (let w = takeWhile (\<lambda>c. \<not> is_space c) s;
          rest = dropWhile (\<lambda>c. \<not> is_space c) s
      in if rest = [] then [w] else w # split_ws (dropWhile is_space rest))"
  by pat_completeness auto
termination
proof (relation "measure length")
  show "wf (measure length)" by simp
next
  fix s :: string and w rest
  assume rest: "rest = dropWhile (\<lambda>c. \<not> is_space c) s" and ne: "rest \<noteq> []"
  from ne obtain c cs where c: "rest = c # cs" by (cases rest) auto
  have "\<not> \<not> is_space (hd rest)"
    using hd_dropWhile [of "\<lambda>c. \<not> is_space c" s] rest ne by blast
  then have "is_space c"
    using c by simp
  then have "dropWhile is_space rest = dropWhile is_space cs"
    using c by simp
  then have "length (dropWhile is_space rest) < length rest"
    using c length_dropWhile_le [of is_space cs] by simp
  moreover have "length rest \<le> length s"
    unfolding rest by (rule length_dropWhile_le)
  ultimately show "(dropWhile is_space rest, s) \<in> measure length" by simp
qed

declare split_ws.simps [simp del]

definition stopWords :: "string list" where
  "stopWords =
     [''the'', ''a'', ''an'', ''and'', ''or'', ''but'', ''in'', ''on'', ''at'', ''to'',
      ''for'', ''of'', ''with'', ''by'', ''from'', ''as'', ''is'', ''was'', ''are'',
      ''were'', ''been'', ''be'', ''have'', ''has'', ''had'', ''do'', ''does'', ''did'',
      ''will'', ''would'', ''could'', ''should'', ''may'', ''might'', ''must'', ''shall'',
      ''can'', ''need'', ''dare'', ''ought'', ''used'', ''this'', ''that'', ''these'',
      ''those'', ''it'', ''its'', ''device'', ''system'', ''apparatus'', ''method'',
      ''invention'', ''product'', ''innovative'', ''new'', ''novel'', ''smart'',
      ''intelligent'', ''advanced'', ''automatic'', ''automated'']"

definition key_words :: "string \<Rightarrow> string list" where
  "key_words s =
     filter (\<lambda>word. length word > 2 \<and> word \<notin> set stopWords) (split_ws (toLowerCase s))"

text \<open>\<open>[...new Set(keywords)]\<close>: each word once, in the order of first occurrence.\<close>

definition unique_in_order :: "'a list \<Rightarrow> 'a list" where
  "unique_in_order xs = fold (\<lambda>x acc. if x \<in> set acc then acc else acc @ [x]) xs []"

fun join :: "string \<Rightarrow> string list \<Rightarrow> string" where
  "join sep [] = []"
| "join sep [x] = x"
| "join sep (x # y # ys) = x @ sep @ join sep (y # ys)"

definition build_query :: "string \<Rightarrow> string list option \<Rightarrow> string" where
  "build_query inventionName keyFeatures =
     (let nameWords = key_words inventionName;
          featureWords =
            (case keyFeatures of
               None \<Rightarrow> []
             | Some fs \<Rightarrow>
                 if length fs > 0
                 then take 3 (concat (map key_words (take 2 fs)))
                 else []);
          keywords = take 3 nameWords @ featureWords
      in join '' '' (take 5 (unique_in_order keywords)))"

definition searchSimilarProducts ::
    "string \<Rightarrow> string \<Rightarrow> string list option \<Rightarrow> world \<Rightarrow> module_state
      \<Rightarrow> EbaySearchResult \<times> module_state" where
  "searchSimilarProducts inventionName description keyFeatures w s =
     searchEbay (build_query inventionName keyFeatures) (no_options\<lparr>opt_limit := Some 15\<rparr>) w s"

subsection \<open>isEbayConfigured and getCredentialStatus\<close>

definition isEbayConfigured :: "world \<Rightarrow> bool" where
  "isEbayConfigured w = (truthy (EBAY_CLIENT_ID w) \<and> truthy (EBAY_CLIENT_SECRET w))"

definition getCredentialStatus :: "world \<Rightarrow> string" where
  "getCredentialStatus w =
     (if isEbayConfigured w then ''eBay API credentials configured''
      else ''eBay API credentials not configured. ''
           @ ''To enable real eBay product search, add EBAY_CLIENT_ID and EBAY_CLIENT_SECRET to your environment variables. ''
           @ ''Get your free credentials at: https://developer.ebay.com/my/keys'')"

section \<open>The retail search agent\<close>

subsection \<open>Data\<close>

record NoveltyCheckRequest =
  invention_name :: string
  rq_description :: string
  problem_statement :: "string option"
  target_audience :: "string option"
  key_features :: "string list option"

record FindingMetadata =
  item_id :: string
  price :: string
  condition :: string
  image_url :: "string option"
  seller_username :: "string option"
  seller_feedback :: "string option"
  categories :: "string option"
  location :: "string option"

record NoveltyFinding =
  title :: string
  description :: string
  url :: string
  similarity_score :: jsvalue
  source :: string
  metadata :: FindingMetadata

record NoveltyResult =
  agent_type :: string
  is_novel :: bool
  confidence :: real
  findings :: "NoveltyFinding list"
  summary :: string
  truth_scores :: TruthScores
  search_query_used :: string
  timestamp :: int

subsection \<open>ebayProductToFinding\<close>

text \<open>\<open>a || b\<close> on strings.\<close>

definition or_else :: "string \<Rightarrow> string \<Rightarrow> string" where
  "or_else a b = (if a \<noteq> [] then a else b)"

text \<open>\<open>.replace(/^, /, '')\<close> and \<open>.replace(/, $/, '')\<close>.\<close>

definition strip_leading_comma :: "string \<Rightarrow> string" where
  "strip_leading_comma s = (if take 2 s = '', '' then drop 2 s else s)"

definition strip_trailing_comma :: "string \<Rightarrow> string" where
  "strip_trailing_comma s =
     (if length s \<ge> 2 \<and> drop (length s - 2) s = '', '' then take (length s - 2) s else s)"

definition location_text :: "ItemLocation \<Rightarrow> string" where
  "location_text l =
     strip_trailing_comma (strip_leading_comma
       (or_else (city l) [] @ '', '' @ or_else (stateOrProvince l) [] @ '', ''
        @ or_else (country l) []))"

definition ebayProductToFinding :: "EbayProduct \<Rightarrow> NoveltyFinding" where
  "ebayProductToFinding product =
     \<lparr>title = p_title product,
      description = or_else (p_condition product) ''New'' @ '' - '' @ p_title product,
      url = itemWebUrl product,
      similarity_score = JNumber (Finite 0),
      source = ''eBay'',
      metadata =
        \<lparr>item_id = itemId product,
         price = (case p_price product of
                    Some pr \<Rightarrow> pr_currency pr @ '' '' @ pr_value pr
                  | None \<Rightarrow> ''Price not available''),
         condition = p_condition product,
         image_url = image product,
         seller_username = map_option username (seller product),
         seller_feedback =
           (case seller product of
              None \<Rightarrow> None
            | Some sl \<Rightarrow>
                if feedbackPercentage sl \<noteq> [] then Some (feedbackPercentage sl @ ''%'')
                else None),
         categories = map_option (\<lambda>cs. join '', '' (map categoryName cs)) (p_categories product),
         location = map_option location_text (itemLocation product)\<rparr>\<rparr>"

subsection \<open>Reading the oracle's reply\<close>

text \<open>\<open>text.trim()\<close>.\<close>

definition trim :: "string \<Rightarrow> string" where
  "trim s = rev (dropWhile is_space (rev (dropWhile is_space s)))"

text \<open>
  \<open>split_at_first pat s\<close> cuts \<open>s\<close> at the first place where \<open>pat\<close> occurs and
  returns what stands before and after it.
\<close>

fun split_at_first :: "string \<Rightarrow> string \<Rightarrow> (string \<times> string) option" where
  "split_at_first pat [] = (if pat = [] then Some ([], []) else None)"
| "split_at_first pat (c # cs) =
     (if take (length pat) (c # cs) = pat then Some ([], drop (length pat) (c # cs))
      else map_option (\<lambda>(before, after). (c # before, after)) (split_at_first pat cs))"

text \<open>
  The two regular expressions have the form \<open>opener([\s\S]*?)\n```\<close>. The match
  begins at the first occurrence of the opener that has a closing fence after it, which
  is the first occurrence of the opener at all; the lazy group then ends at the first
  closing fence that follows.
\<close>

definition closing_fence :: string where
  "closing_fence = CHR 0x0A # ''```''"

definition match_fence :: "string \<Rightarrow> string \<Rightarrow> string option" where
  "match_fence opener s =
     (case split_at_first opener s of
        None \<Rightarrow> None
      | Some (before, rest) \<Rightarrow>
          (case split_at_first closing_fence rest of
             None \<Rightarrow> None
           | Some (inner, after) \<Rightarrow> Some inner))"

definition extract_json :: "string \<Rightarrow> string" where
  "extract_json text =
     (let jsonText = trim text
      in case match_fence (''```json'' @ [CHR 0x0A]) jsonText of
           Some inner \<Rightarrow> inner
         | None \<Rightarrow>
             (case match_fence (''```'' @ [CHR 0x0A]) jsonText of
                Some inner \<Rightarrow> inner
              | None \<Rightarrow> jsonText))"

subsection \<open>Scoring and sorting the findings\<close>

text \<open>\<open>new Map(entries)\<close>: the entries are set one after the other, a later one wins.\<close>

definition productAnalysisMap :: "ProductAnalysis list \<Rightarrow> (string \<rightharpoonup> ProductAnalysis)" where
  "productAnalysisMap pas = fold (\<lambda>a m. m(pa_item_id a \<mapsto> a)) pas Map.empty"

definition update_finding :: "(string \<rightharpoonup> ProductAnalysis) \<Rightarrow> NoveltyFinding \<Rightarrow> NoveltyFinding" where
  "update_finding m finding =
     (case m (item_id (metadata finding)) of
        Some a \<Rightarrow>
          finding\<lparr>similarity_score := pa_similarity_score a,
                  description := or_else (analysis a) (description finding)\<rparr>
      | None \<Rightarrow> finding)"

text \<open>
  \<open>Array.prototype.sort\<close> with a comparator. The language requires the sort to be
  stable, and for a consistent comparator the sorted array is then determined; the
  insertion sort below computes it. \<open>cmp a b > 0\<close> puts \<open>a\<close> after \<open>b\<close>; a
  comparator result of NaN is read as 0. For a comparator that is not consistent the
  language leaves the order to the implementation, and the insertion sort is one such
  order.
\<close>

fun insert_sorted :: "('a \<Rightarrow> 'a \<Rightarrow> jsnum) \<Rightarrow> 'a \<Rightarrow> 'a list \<Rightarrow> 'a list" where
  "insert_sorted cmp x [] = [x]"
| "insert_sorted cmp x (y # ys) =
     (if js_positive (cmp x y) then y # insert_sorted cmp x ys else x # y # ys)"

definition Array_sort :: "('a \<Rightarrow> 'a \<Rightarrow> jsnum) \<Rightarrow> 'a list \<Rightarrow> 'a list" where
  "Array_sort cmp xs = foldr (insert_sorted cmp) xs []"

text \<open>
  The comparator \<open>(a, b) => b.similarity_score - a.similarity_score\<close>: both scores
  are converted to Numbers and subtracted.
\<close>

definition by_similarity :: "world \<Rightarrow> NoveltyFinding \<Rightarrow> NoveltyFinding \<Rightarrow> jsnum" where
  "by_similarity w a b =
     js_sub (ToNumber w (similarity_score b)) (ToNumber w (similarity_score a))"

text \<open>
  \<open>updatedFindings\<close>: each finding takes the score and the rationale of the analysis
  stored under its item id, if there is one; \<open>analysisResult.product_analyses?.map(...) || []\<close>
  gives the entries.
\<close>

definition analyses_of :: "AnalysisResult \<Rightarrow> ProductAnalysis list" where
  "analyses_of analysisResult =
     (case product_analyses analysisResult of None \<Rightarrow> [] | Some pas \<Rightarrow> pas)"

definition updatedFindings :: "AnalysisResult \<Rightarrow> NoveltyFinding list \<Rightarrow> NoveltyFinding list" where
  "updatedFindings analysisResult fs =
     map (update_finding (productAnalysisMap (analyses_of analysisResult))) fs"

subsection \<open>runRetailSearchAgent\<close>

definition zero_scores :: TruthScores where
  "zero_scores =
     \<lparr>objective_truth = 0, practical_truth = 0, completeness = 0, contextual_scope = 0\<rparr>"

text \<open>
  The body of the \<open>try\<close> block, after the call has been issued. The prompt is built
  from the request and the products and is handed to the oracle; the oracle's reply is
  whatever the world holds.
\<close>

definition analysis_try ::
    "world \<Rightarrow> EbaySearchResult \<Rightarrow> NoveltyFinding list \<Rightarrow> thrown + NoveltyResult" where
  "analysis_try w ebayResult fs =
     (case claude_create w of
        CallThrows e \<Rightarrow> Inl e
      | NonTextBlock \<Rightarrow> Inl (Error ''Unexpected response type from Claude'')
      | TextBlock text \<Rightarrow>
          (case JSON_parse w (extract_json text) of
             Inl e \<Rightarrow> Inl e
           | Inr analysisResult \<Rightarrow>
                  Inr \<lparr>agent_type = ''retail_search'',
                       is_novel = ar_is_novel analysisResult,
                       confidence = ar_confidence analysisResult,
                       findings = Array_sort (by_similarity w) (updatedFindings analysisResult fs),
                       summary = ar_summary analysisResult,
                       truth_scores = ar_truth_scores analysisResult,
                       search_query_used = searchQuery ebayResult,
                       timestamp = new_Date w\<rparr>))"

text \<open>The \<open>catch\<close> block: the findings of phase 1, as they are.\<close>

definition analysis_failed :: "world \<Rightarrow> EbaySearchResult \<Rightarrow> NoveltyFinding list \<Rightarrow> NoveltyResult" where
  "analysis_failed w ebayResult fs =
     \<lparr>agent_type = ''retail_search'',
      is_novel = False,
      confidence = 0.3,
      findings = fs,
      summary = ''Found '' @ nat_to_string (length fs)
                @ '' potentially similar products on eBay, but analysis failed. Manual review recommended.'',
      truth_scores =
        \<lparr>objective_truth = 0.6, practical_truth = 0.5, completeness = 0.4,
         contextual_scope = 0.5\<rparr>,
      search_query_used = searchQuery ebayResult,
      timestamp = new_Date w\<rparr>"

definition runRetailSearchAgent ::
    "NoveltyCheckRequest \<Rightarrow> world \<Rightarrow> module_state \<Rightarrow> NoveltyResult \<times> module_state" where
  "runRetailSearchAgent request w s =
     (if \<not> isEbayConfigured w
      then (\<lparr>agent_type = ''retail_search'', is_novel = False, confidence = 0, findings = [],
             summary = getCredentialStatus w, truth_scores = zero_scores,
             search_query_used = invention_name request, timestamp = new_Date w\<rparr>, s)
      else
        case searchSimilarProducts (invention_name request) (rq_description request)
               (key_features request) w s of
          (ebayResult, s1) \<Rightarrow>
            if \<not> success ebayResult
            then (\<lparr>agent_type = ''retail_search'', is_novel = False, confidence = 0,
                   findings = [],
                   summary = ''eBay API error: '' @ interpolate (error ebayResult),
                   truth_scores = zero_scores,
                   search_query_used = searchQuery ebayResult, timestamp = new_Date w\<rparr>, s1)
            else if length (products ebayResult) = 0
            then (\<lparr>agent_type = ''retail_search'', is_novel = True, confidence = 0.7,
                   findings = [],
                   summary = ''No similar products found on eBay for \"'' @ searchQuery ebayResult
                             @ ''\". This suggests the invention may be novel in the retail marketplace, though further research on other platforms is recommended.'',
                   truth_scores =
                     \<lparr>objective_truth = 0.8, practical_truth = 0.7, completeness = 0.5,
                      contextual_scope = 0.8\<rparr>,
                   search_query_used = searchQuery ebayResult, timestamp = new_Date w\<rparr>, s1)
            else
              let fs = map ebayProductToFinding (products ebayResult);
                  s2 = s1\<lparr>calls := calls s1 @ [ClaudeMessagesCreate]\<rparr>
              in case analysis_try w ebayResult fs of
                   Inr result \<Rightarrow> (result, s2)
                 | Inl e \<Rightarrow> (analysis_failed w ebayResult fs, s2))"

section \<open>The search cache (table \<open>search_cache\<close>)\<close>

subsection \<open>The table\<close>

text \<open>
  \<open>search_type\<close> is constrained by a \<open>CHECK\<close> to three values. \<open>query_params\<close> and
  the elements of \<open>results\<close> are JSON documents, kept as text. Timestamps are points on
  one clock. \<open>expires_at\<close> is nullable: \<open>None\<close> is \<open>NULL\<close>, an entry that never
  expires. The table is the list of its rows.
\<close>

datatype search_type = patent | web | retail

record cache_row =
  row_id :: nat
  query_hash :: string
  row_type :: search_type
  query_params :: string
  results :: "string list"
  result_count :: int
  source_api :: string
  expires_at :: "int option"
  created_at :: int
  updated_at :: int

type_synonym search_cache = "cache_row list"

subsection \<open>cleanup_expired_cache\<close>

text \<open>The condition \<open>expires_at IS NOT NULL AND expires_at < NOW()\<close>.\<close>

definition is_expired :: "int \<Rightarrow> cache_row \<Rightarrow> bool" where
  "is_expired now r = (case expires_at r of None \<Rightarrow> False | Some t \<Rightarrow> t < now)"

text \<open>
  \<open>DELETE FROM ... WHERE cond\<close> followed by \<open>GET DIAGNOSTICS n = ROW_COUNT\<close>: one
  pass over the rows that drops those satisfying the condition and counts them.
\<close>

fun delete_where :: "(cache_row \<Rightarrow> bool) \<Rightarrow> search_cache \<Rightarrow> search_cache \<times> int" where
  "delete_where cond [] = ([], 0)"
| "delete_where cond (r # rs) =
     (case delete_where cond rs of
        (kept, n) \<Rightarrow> if cond r then (kept, n + 1) else (r # kept, n))"

text \<open>The function returns the table after the sweep and \<open>deleted_count\<close>.\<close>

definition cleanup_expired_cache :: "int \<Rightarrow> search_cache \<Rightarrow> search_cache \<times> int" where
  "cleanup_expired_cache now t = delete_where (is_expired now) t"

subsection \<open>The operations of the cache store\<close>

text \<open>
  Modelled from the spec: the repository's files hold the table and the sweep but not
  the code of \<open>put\<close>, \<open>get\<close> and \<open>invalidate\<close>, nor the fingerprint function. The
  three operations follow section 4.2 of the specification; the fingerprint function is
  a parameter \<open>fp\<close>.
\<close>

text \<open>
  Modelled from the spec: \<open>get\<close> computes the fingerprint and looks the entry up; an
  entry whose \<open>expires_at\<close> lies in the past is treated as absent.
\<close>

definition cache_get ::
    "(search_type \<Rightarrow> string \<Rightarrow> string) \<Rightarrow> int \<Rightarrow> search_type \<Rightarrow> string \<Rightarrow> search_cache
      \<Rightarrow> cache_row option" where
  "cache_get fp now ty params t =
     (case find (\<lambda>r. query_hash r = fp ty params) t of
        None \<Rightarrow> None
      | Some r \<Rightarrow> if is_expired now r then None else Some r)"

text \<open>
  Modelled from the spec: the expiry that \<open>put\<close> records. A patent entry never
  expires, whatever the caller passes; otherwise the entry expires after \<open>ttl\<close>, seven
  days by default.
\<close>

definition expiry_for :: "search_type \<Rightarrow> int option \<Rightarrow> int \<Rightarrow> int option" where
  "expiry_for ty ttl now =
     (if ty = patent then None
      else Some (now + (case ttl of None \<Rightarrow> 7 * 24 * 60 * 60 * 1000 | Some d \<Rightarrow> d)))"

text \<open>
  Modelled from the spec: \<open>put\<close> is an upsert on the fingerprint. An existing entry has
  its results, count, source and expiry replaced and \<open>updated_at\<close> refreshed. A new
  entry is inserted under the constraints of the table: \<open>query_hash\<close> is \<open>UNIQUE\<close>
  and \<open>id\<close> is the primary key, so an insert that would repeat either is refused and
  leaves the table as it was.
\<close>

definition cache_put ::
    "(search_type \<Rightarrow> string \<Rightarrow> string) \<Rightarrow> int \<Rightarrow> nat \<Rightarrow> search_type \<Rightarrow> string
      \<Rightarrow> string list \<Rightarrow> string \<Rightarrow> int option \<Rightarrow> search_cache \<Rightarrow> search_cache" where
  "cache_put fp now new_id ty params res api ttl t =
     (let h = fp ty params
      in if \<exists>r \<in> set t. query_hash r = h
         then map (\<lambda>r. if query_hash r = h
                        then r\<lparr>results := res, result_count := int (length res),
                               source_api := api, expires_at := expiry_for ty ttl now,
                               updated_at := now\<rparr>
                        else r) t
         else if \<exists>r \<in> set t. row_id r = new_id then t
         else t @ [\<lparr>row_id = new_id, query_hash = h, row_type = ty, query_params = params,
                     results = res, result_count = int (length res), source_api = api,
                     expires_at = expiry_for ty ttl now, created_at = now,
                     updated_at = now\<rparr>])"

text \<open>Modelled from the spec: \<open>invalidate\<close> deletes the entry of a fingerprint, if any.\<close>

definition cache_invalidate :: "string \<Rightarrow> search_cache \<Rightarrow> search_cache" where
  "cache_invalidate h t = fst (delete_where (\<lambda>r. query_hash r = h) t)"

text \<open>
  Modelled from the spec: the operations a client can issue (section 4.2 and 4.3), each
  with the clock reading at which the store executes it and, for \<open>put\<close>, the
  identifier generated for a new row.
  Each operation is one statement of the database and takes effect as a whole; calls
  made concurrently take effect in some order.
\<close>

datatype cache_op =
    Put nat search_type string "string list" string "int option"
  | Get search_type string
  | Invalidate string
  | Cleanup

fun apply_op :: "(search_type \<Rightarrow> string \<Rightarrow> string) \<Rightarrow> int \<times> cache_op \<Rightarrow> search_cache \<Rightarrow> search_cache" where
  "apply_op fp (now, Put new_id ty params res api ttl) t =
     cache_put fp now new_id ty params res api ttl t"
| "apply_op fp (now, Get ty params) t = t"
| "apply_op fp (now, Invalidate h) t = cache_invalidate h t"
| "apply_op fp (now, Cleanup) t = fst (cleanup_expired_cache now t)"

text \<open>
  Modelled from the spec: the state of the store after a sequence of operations on the
  empty table.
\<close>

definition run_ops :: "(search_type \<Rightarrow> string \<Rightarrow> string) \<Rightarrow> (int \<times> cache_op) list \<Rightarrow> search_cache" where
  "run_ops fp ops = fold (apply_op fp) ops []"

section \<open>Notions used in the statements\<close>

subsection \<open>The oracle's reply\<close>

text \<open>
  The analysis the agent obtains from the oracle, if any: there is none when the call
  throws, when the first block is not a text, or when the text cannot be parsed.
\<close>

definition oracle_reply :: "world \<Rightarrow> AnalysisResult option" where
  "oracle_reply w =
     (case claude_create w of
        TextBlock text \<Rightarrow>
          (case JSON_parse w (extract_json text) of Inr a \<Rightarrow> Some a | Inl e \<Rightarrow> None)
      | CallThrows e \<Rightarrow> None
      | NonTextBlock \<Rightarrow> None)"

definition oracle_failed :: "world \<Rightarrow> bool" where
  "oracle_failed w = (oracle_reply w = None)"

text \<open>The analysis has an entry for the item of a finding.\<close>

definition has_entry :: "AnalysisResult \<Rightarrow> NoveltyFinding \<Rightarrow> bool" where
  "has_entry a f = list_ex (\<lambda>p. pa_item_id p = item_id (metadata f)) (analyses_of a)"

text \<open>The score of a finding is one the analysis gives for its item.\<close>

definition resolved_by :: "AnalysisResult \<Rightarrow> NoveltyFinding \<Rightarrow> bool" where
  "resolved_by a f =
     list_ex (\<lambda>p. pa_item_id p = item_id (metadata f)
                  \<and> pa_similarity_score p = similarity_score f) (analyses_of a)"

definition oracle_resolved :: "world \<Rightarrow> NoveltyFinding \<Rightarrow> bool" where
  "oracle_resolved w f = (case oracle_reply w of None \<Rightarrow> False | Some a \<Rightarrow> resolved_by a f)"

definition oracle_has_entry :: "world \<Rightarrow> NoveltyFinding \<Rightarrow> bool" where
  "oracle_has_entry w f = (case oracle_reply w of None \<Rightarrow> False | Some a \<Rightarrow> has_entry a f)"

subsection \<open>Ranges and order\<close>

definition in_unit :: "real \<Rightarrow> bool" where
  "in_unit x = (0 \<le> x \<and> x \<le> 1)"

definition scores_in_unit :: "TruthScores \<Rightarrow> bool" where
  "scores_in_unit t =
     (in_unit (objective_truth t) \<and> in_unit (practical_truth t)
      \<and> in_unit (completeness t) \<and> in_unit (contextual_scope t))"

text \<open>A similarity score in the unit interval: a finite Number between 0 and 1.\<close>

definition score_in_unit :: "jsvalue \<Rightarrow> bool" where
  "score_in_unit v = (case v of JNumber (Finite x) \<Rightarrow> in_unit x | _ \<Rightarrow> False)"

definition result_in_range :: "NoveltyResult \<Rightarrow> bool" where
  "result_in_range r =
     (in_unit (confidence r) \<and> scores_in_unit (truth_scores r)
      \<and> list_all (\<lambda>f. score_in_unit (similarity_score f)) (findings r))"

definition analysis_in_range :: "AnalysisResult \<Rightarrow> bool" where
  "analysis_in_range a =
     (in_unit (ar_confidence a) \<and> scores_in_unit (ar_truth_scores a)
      \<and> list_all (\<lambda>p. score_in_unit (pa_similarity_score p)) (analyses_of a))"




subsection \<open>The token cache and the store\<close>






text \<open>
  No two rows share a fingerprint or an identifier, and every row is whole: its count
  is the number of its results.
\<close>

definition store_inv :: "search_cache \<Rightarrow> bool" where
  "store_inv t =
     (distinct (map query_hash t) \<and> distinct (map row_id t)
      \<and> list_all (\<lambda>r. result_count r = int (length (results r))) t)"

section \<open>Example data\<close>

definition example_product_a :: EbayProduct where
  "example_product_a =
     \<lparr>itemId = ''111'', p_title = ''Solar phone case'', itemWebUrl = ''https://www.ebay.com/itm/111'',
      p_price = Some \<lparr>pr_value = ''19.99'', pr_currency = ''USD''\<rparr>, image = None,
      p_condition = ''New'', seller = None, p_categories = None, itemLocation = None\<rparr>"

definition example_product_b :: EbayProduct where
  "example_product_b =
     \<lparr>itemId = ''222'', p_title = ''Solar charger'', itemWebUrl = ''https://www.ebay.com/itm/222'',
      p_price = None, image = None,
      p_condition = [], seller = None, p_categories = None, itemLocation = None\<rparr>"

definition example_product_c :: EbayProduct where
  "example_product_c =
     \<lparr>itemId = ''333'', p_title = ''Phone case'', itemWebUrl = ''https://www.ebay.com/itm/333'',
      p_price = Some \<lparr>pr_value = ''5.00'', pr_currency = ''USD''\<rparr>, image = None,
      p_condition = ''Used'',
      seller = Some \<lparr>username = ''casey'', feedbackPercentage = ''99.1'', feedbackScore = 1200\<rparr>,
      p_categories = Some [\<lparr>categoryId = ''9'', categoryName = ''Cases''\<rparr>,
                           \<lparr>categoryId = ''12'', categoryName = ''Covers''\<rparr>],
      itemLocation = Some \<lparr>city = [], stateOrProvince = ''CA'', country = ''US''\<rparr>\<rparr>"

definition example_request :: NoveltyCheckRequest where
  "example_request =
     \<lparr>invention_name = ''Solar Phone Case'', rq_description = ''A phone case that charges'',
      problem_statement = None, target_audience = None, key_features = None\<rparr>"

text \<open>An analysis that scores the second product only.\<close>

definition example_analysis :: AnalysisResult where
  "example_analysis =
     \<lparr>ar_is_novel = False, ar_confidence = 0.8,
      product_analyses =
        Some [\<lparr>pa_item_id = ''222'', pa_similarity_score = JNumber (Finite 0.875),
               analysis = ''Near identical''\<rparr>],
      ar_summary = ''Similar products exist'',
      ar_truth_scores =
        \<lparr>objective_truth = 0.9, practical_truth = 0.8, completeness = 0.5,
         contextual_scope = 0.7\<rparr>\<rparr>"

definition example_parse :: "string \<Rightarrow> thrown + AnalysisResult" where
  "example_parse s =
     (if s = ''ANALYSIS'' then Inr example_analysis else Inl (Error ''Unexpected token''))"

text \<open>A conversion of strings to Numbers that knows the empty string and \<open>1\<close>.\<close>

definition example_StringToNumber :: "string \<Rightarrow> jsnum" where
  "example_StringToNumber s = (if s = [] then Finite 0 else if s = ''1'' then Finite 1 else NaN)"

text \<open>
  A world in which everything works: the credentials are set, the token request and the
  search succeed with three products, and the oracle answers with a fenced text.
\<close>

definition example_world :: world where
  "example_world =
     \<lparr>EBAY_CLIENT_ID = Some ''id'', EBAY_CLIENT_SECRET = Some ''secret'',
      Date_now = 1000000, new_Date = 1000500,
      oauth_fetch = Resolves \<lparr>status = 200, text_body = Inr [],
                              json_body = Inr \<lparr>access_token = ''tok-1'',
                                               expires_in = JNumber (Finite 7200)\<rparr>\<rparr>,
      search_fetch = Resolves \<lparr>status = 200, text_body = Inr [],
                               json_body = Inr \<lparr>resp_total = 3,
                                                itemSummaries = Some [example_product_a,
                                                  example_product_b, example_product_c]\<rparr>\<rparr>,
      claude_create = TextBlock (''```json'' @ [CHR 0x0A] @ ''ANALYSIS'' @ [CHR 0x0A] @ ''```''),
      JSON_parse = example_parse,
      StringToNumber = example_StringToNumber\<rparr>"

definition initial_state :: module_state where
  "initial_state = \<lparr>cachedToken = None, calls = []\<rparr>"

definition cached_state :: module_state where
  "cached_state =
     \<lparr>cachedToken = Some \<lparr>token = ''tok-0'', expiresAt = Finite 2000000\<rparr>, calls = []\<rparr>"

text \<open>The same world with one thing changed.\<close>

definition unconfigured_world :: world where
  "unconfigured_world = example_world\<lparr>EBAY_CLIENT_SECRET := None\<rparr>"

definition empty_world :: world where
  "empty_world =
     example_world\<lparr>search_fetch :=
       Resolves \<lparr>status = 200, text_body = Inr [],
                 json_body = Inr \<lparr>resp_total = 0, itemSummaries = None\<rparr>\<rparr>\<rparr>"

definition failing_world :: world where
  "failing_world = example_world\<lparr>claude_create := CallThrows (Error ''Overloaded'')\<rparr>"

definition overconfident_world :: world where
  "overconfident_world =
     example_world\<lparr>JSON_parse := (\<lambda>s. Inr (example_analysis\<lparr>ar_confidence := 5\<rparr>))\<rparr>"




text \<open>The search answers 401, and the connection is lost while its body is read.\<close>

definition body_lost_world :: world where
  "body_lost_world =
     example_world\<lparr>search_fetch :=
       Resolves \<lparr>status = 401, text_body = Inl (Error ''terminated''),
                 json_body = Inl (Error ''terminated'')\<rparr>\<rparr>"

definition example_table :: search_cache where
  "example_table =
     [\<lparr>row_id = 1, query_hash = ''h-web'', row_type = web, query_params = ''{}'',
       results = [''r1''], result_count = 1, source_api = ''brave'', expires_at = Some 50,
       created_at = 10, updated_at = 10\<rparr>,
      \<lparr>row_id = 2, query_hash = ''h-retail'', row_type = retail, query_params = ''{}'',
       results = [], result_count = 0, source_api = ''ebay'', expires_at = Some 500,
       created_at = 20, updated_at = 20\<rparr>,
      \<lparr>row_id = 3, query_hash = ''h-patent'', row_type = patent, query_params = ''{}'',
       results = [''p1'', ''p2''], result_count = 2, source_api = ''uspto'', expires_at = None,
       created_at = 30, updated_at = 30\<rparr>]"

definition example_fp :: "search_type \<Rightarrow> string \<Rightarrow> string" where
  "example_fp ty params =
     (case ty of patent \<Rightarrow> ''patent:'' | web \<Rightarrow> ''web:'' | retail \<Rightarrow> ''retail:'') @ params"

definition example_ops :: "(int \<times> cache_op) list" where
  "example_ops =
     [(10, Put 1 retail ''solar phone case'' [''item1'', ''item2''] ''ebay'' None),
      (11, Put 2 retail ''solar phone case'' [''item3''] ''ebay'' (Some 1000)),
      (12, Put 3 patent ''solar phone case'' [''US1''] ''uspto'' (Some 1000)),
      (13, Get retail ''solar phone case''),
      (5000, Cleanup),
      (5001, Put 4 web ''solar'' [] ''brave'' None),
      (5002, Invalidate ''web:solar'')]"

section \<open>Properties of the numbers\<close>

subsection \<open>Rounding\<close>














subsection \<open>Order\<close>





subsection \<open>Clock readings\<close>




section \<open>Properties of the eBay client\<close>

subsection \<open>getAccessToken\<close>


lemma request_token_calls:
  "request_token w now s = (res, s') \<Longrightarrow>
   calls s' = calls s @ [OAuthTokenRequest (interpolate (EBAY_CLIENT_ID w) @ '':'' @ interpolate (EBAY_CLIENT_SECRET w))]"
  by (auto simp: request_token_def Let_def split: fetch_outcome.splits if_splits sum.splits)

lemma getAccessToken_calls:
  "getAccessToken w s = (res, s') \<Longrightarrow>
   \<exists>ext. calls s' = calls s @ ext \<and> ClaudeMessagesCreate \<notin> set ext"
  by (auto simp: getAccessToken_def Let_def split: if_splits option.splits
           dest!: request_token_calls)

lemma getAccessToken_unconfigured:
  "\<not> isEbayConfigured w \<Longrightarrow> getAccessToken w s = (Inl (Error credentials_missing_message), s)"
  by (auto simp: getAccessToken_def isEbayConfigured_def)




subsection \<open>searchEbay\<close>

lemma searchEbay_try_calls:
  assumes "searchEbay_try query options w s = (res, s')"
  shows "\<exists>ext. calls s' = calls s @ ext \<and> ClaudeMessagesCreate \<notin> set ext"
proof (cases "getAccessToken w s")
  case (Pair tk s1)
  then obtain ext where ext: "calls s1 = calls s @ ext" "ClaudeMessagesCreate \<notin> set ext"
    using getAccessToken_calls by blast
  show ?thesis
  proof (cases tk)
    case (Inl e)
    then show ?thesis using assms Pair ext by (auto simp: searchEbay_try_def Let_def)
  next
    case (Inr accessToken)
    then have "\<exists>p. calls s' = calls s1 @ [BrowseSearchRequest p]"
      using assms Pair
      by (auto simp: searchEbay_try_def Let_def split: fetch_outcome.splits if_splits sum.splits)
    then show ?thesis using ext by auto
  qed
qed

lemma searchEbay_calls:
  assumes "searchEbay query options w s = (res, s')"
  shows "\<exists>ext. calls s' = calls s @ ext \<and> ClaudeMessagesCreate \<notin> set ext"
proof (cases "searchEbay_try query options w s")
  case (Pair r s1)
  then have "s' = s1"
    using assms by (auto simp: searchEbay_def split: sum.splits)
  then show ?thesis using searchEbay_try_calls [OF Pair] by simp
qed

text \<open>Whatever is thrown inside the \<open>try\<close> block becomes the failure record.\<close>

lemma searchEbay_caught:
  "searchEbay_try query options w s = (Inl e, s') \<Longrightarrow>
   searchEbay query options w s =
     (\<lparr>success = False, products = [], total = 0, searchQuery = query,
       error = Some (error_message e)\<rparr>, s')"
  by (simp add: searchEbay_def)

lemma searchEbay_returned:
  "searchEbay_try query options w s = (Inr r, s') \<Longrightarrow>
   searchEbay query options w s = (r, s') \<and> success r \<and> searchQuery r = query \<and> error r = None"
  by (auto simp: searchEbay_def searchEbay_try_def Let_def
           split: prod.splits fetch_outcome.splits if_splits sum.splits)

lemma searchEbay_failure_shape:
  assumes "searchEbay query options w s = (r, s')" and "\<not> success r"
  shows "products r = [] \<and> total r = 0 \<and> searchQuery r = query
       \<and> (\<exists>e. searchEbay_try query options w s = (Inl e, s') \<and> error r = Some (error_message e))"
proof (cases "searchEbay_try query options w s")
  case (Pair res s1)
  show ?thesis
  proof (cases res)
    case (Inl e)
    then show ?thesis using assms Pair by (auto simp: searchEbay_def)
  next
    case (Inr ok_result)
    then have "success r"
      using assms(1) Pair searchEbay_returned [of query options w s ok_result s1] by auto
    then show ?thesis using assms(2) by simp
  qed
qed

text \<open>
  For every input the result is either the success record or the failure record, and it
  names the query it was given.
\<close>

lemma searchEbay_result_shape:
  assumes "searchEbay query options w s = (r, s')"
  shows "searchQuery r = query
       \<and> (if success r then error r = None
           else products r = [] \<and> total r = 0 \<and> (\<exists>e. error r = Some (error_message e)))"
proof (cases "success r")
  case True
  then obtain ok_result where "searchEbay_try query options w s = (Inr ok_result, s')"
    using assms
    by (cases "searchEbay_try query options w s") (auto simp: searchEbay_def split: sum.splits)
  then show ?thesis
    using assms True searchEbay_returned [of query options w s ok_result s'] by auto
next
  case False
  then show ?thesis
    using searchEbay_failure_shape [OF assms False] by auto
qed

text \<open>The messages the module itself composes are never empty.\<close>

lemma own_messages_nonempty:
  "credentials_missing_message \<noteq> []"
  "''eBay OAuth failed ('' @ nat_to_string n @ ''): '' @ t \<noteq> []"
  "''eBay search failed ('' @ nat_to_string n @ ''): '' @ t \<noteq> []"
  by (simp_all add: credentials_missing_message_def)

text \<open>A 401 whose body has been read clears the token cache.\<close>

lemma searchEbay_401:
  assumes "getAccessToken w s = (Inr tk, s1)"
    and "search_fetch w = Resolves response" and "status response = 401"
    and "text_body response = Inr errorText"
  shows "searchEbay query options w s =
     (\<lparr>success = False, products = [], total = 0, searchQuery = query,
       error = Some ''eBay access token expired. Please retry.''\<rparr>,
      s1\<lparr>calls := calls s1 @ [BrowseSearchRequest
            \<lparr>bearer = tk, q = query,
             limit_param = (case opt_limit options of None \<Rightarrow> 20 | Some l \<Rightarrow> l),
             offset_param = (case opt_offset options of None \<Rightarrow> 0 | Some off \<Rightarrow> off),
             filter_param = if_truthy (opt_filter options),
             sort_param = if_truthy (opt_sort options)\<rparr>],
          cachedToken := None\<rparr>)"
  using assms
  by (simp add: searchEbay_def searchEbay_try_def Let_def ok_def error_message_def)

text \<open>A 401 whose body cannot be read leaves the token cache as the token step left it.\<close>

lemma searchEbay_401_body_lost:
  assumes "getAccessToken w s = (Inr tk, s1)"
    and "search_fetch w = Resolves response" and "status response = 401"
    and "text_body response = Inl e"
  shows "cachedToken (snd (searchEbay query options w s)) = cachedToken s1"
  using assms
  by (simp add: searchEbay_def searchEbay_try_def Let_def ok_def error_message_def)

text \<open>
  C10: \<open>searchEbay\<close> turns every failure into the failure record, and a 401 is meant to
  clear the token cache before that record is returned. The code reads the body of a
  response that is not OK before it looks at the status. At this input the search
  answers 401 and reading the body fails: the failure record is returned, with the
  message of the body error, and the cache still holds the token.
\<close>

theorem searchEbay_401_unread_body_keeps_token:
  "searchEbay ''solar phone case'' no_options body_lost_world cached_state
     = (\<lparr>success = False, products = [], total = 0, searchQuery = ''solar phone case'',
         error = Some ''terminated''\<rparr>,
        \<lparr>cachedToken = Some \<lparr>token = ''tok-0'', expiresAt = Finite 2000000\<rparr>,
         calls = [BrowseSearchRequest
                    \<lparr>bearer = ''tok-0'', q = ''solar phone case'', limit_param = 20,
                     offset_param = 0, filter_param = None, sort_param = None\<rparr>]\<rparr>)"
  by code_simp

section \<open>Properties of the retail search agent\<close>

subsection \<open>The oracle's reply and the try block\<close>

lemma analysis_try_failed:
  "oracle_reply w = None \<Longrightarrow> \<exists>e. analysis_try w ebayResult fs = Inl e"
  by (auto simp: oracle_reply_def analysis_try_def split: claude_outcome.splits sum.splits)

lemma analysis_try_reply:
  "oracle_reply w = Some a \<Longrightarrow>
   analysis_try w ebayResult fs =
     Inr \<lparr>agent_type = ''retail_search'', is_novel = ar_is_novel a, confidence = ar_confidence a,
          findings = Array_sort (by_similarity w) (updatedFindings a fs), summary = ar_summary a,
          truth_scores = ar_truth_scores a, search_query_used = searchQuery ebayResult,
          timestamp = new_Date w\<rparr>"
  by (auto simp: oracle_reply_def analysis_try_def split: claude_outcome.splits sum.splits)

subsection \<open>The five ways through the agent\<close>

lemma agent_unconfigured:
  "\<not> isEbayConfigured w \<Longrightarrow>
   runRetailSearchAgent request w s =
     (\<lparr>agent_type = ''retail_search'', is_novel = False, confidence = 0, findings = [],
       summary = getCredentialStatus w, truth_scores = zero_scores,
       search_query_used = invention_name request, timestamp = new_Date w\<rparr>, s)"
  by (simp add: runRetailSearchAgent_def)

lemma agent_provider_error:
  assumes "isEbayConfigured w"
    and "searchSimilarProducts (invention_name request) (rq_description request)
           (key_features request) w s = (ebayResult, s1)"
    and "\<not> success ebayResult"
  shows "runRetailSearchAgent request w s =
     (\<lparr>agent_type = ''retail_search'', is_novel = False, confidence = 0, findings = [],
       summary = ''eBay API error: '' @ interpolate (error ebayResult),
       truth_scores = zero_scores,
       search_query_used = searchQuery ebayResult, timestamp = new_Date w\<rparr>, s1)"
  using assms by (simp add: runRetailSearchAgent_def)

lemma agent_no_products:
  assumes "isEbayConfigured w"
    and "searchSimilarProducts (invention_name request) (rq_description request)
           (key_features request) w s = (ebayResult, s1)"
    and "success ebayResult" and "products ebayResult = []"
  shows "runRetailSearchAgent request w s =
     (\<lparr>agent_type = ''retail_search'', is_novel = True, confidence = 0.7, findings = [],
       summary = ''No similar products found on eBay for \"'' @ searchQuery ebayResult
                 @ ''\". This suggests the invention may be novel in the retail marketplace, though further research on other platforms is recommended.'',
       truth_scores =
         \<lparr>objective_truth = 0.8, practical_truth = 0.7, completeness = 0.5,
          contextual_scope = 0.8\<rparr>,
       search_query_used = searchQuery ebayResult, timestamp = new_Date w\<rparr>, s1)"
  using assms by (simp add: runRetailSearchAgent_def)

lemma agent_oracle_failed:
  assumes "isEbayConfigured w"
    and "searchSimilarProducts (invention_name request) (rq_description request)
           (key_features request) w s = (ebayResult, s1)"
    and "success ebayResult" and "products ebayResult \<noteq> []"
    and "oracle_reply w = None"
  shows "runRetailSearchAgent request w s =
     (analysis_failed w ebayResult (map ebayProductToFinding (products ebayResult)),
      s1\<lparr>calls := calls s1 @ [ClaudeMessagesCreate]\<rparr>)"
proof -
  obtain e where "analysis_try w ebayResult (map ebayProductToFinding (products ebayResult)) = Inl e"
    using analysis_try_failed [OF assms(5)] by blast
  then show ?thesis
    using assms(1-4) by (simp add: runRetailSearchAgent_def Let_def)
qed

lemma agent_scored:
  assumes "isEbayConfigured w"
    and "searchSimilarProducts (invention_name request) (rq_description request)
           (key_features request) w s = (ebayResult, s1)"
    and "success ebayResult" and "products ebayResult \<noteq> []"
    and "oracle_reply w = Some a"
  shows "runRetailSearchAgent request w s =
     (\<lparr>agent_type = ''retail_search'', is_novel = ar_is_novel a, confidence = ar_confidence a,
          findings = Array_sort (by_similarity w)
                       (updatedFindings a (map ebayProductToFinding (products ebayResult))),
          summary = ar_summary a,
          truth_scores = ar_truth_scores a, search_query_used = searchQuery ebayResult,
          timestamp = new_Date w\<rparr>,
      s1\<lparr>calls := calls s1 @ [ClaudeMessagesCreate]\<rparr>)"
  using assms(1-4) analysis_try_reply [OF assms(5)]
  by (simp add: runRetailSearchAgent_def Let_def)

subsection \<open>The sort\<close>

lemma set_insert_sorted: "set (insert_sorted cmp x ys) = insert x (set ys)"
  by (induction ys) auto

lemma length_insert_sorted: "length (insert_sorted cmp x ys) = Suc (length ys)"
  by (induction ys) auto

lemma set_Array_sort: "set (Array_sort cmp xs) = set xs"
  unfolding Array_sort_def by (induction xs) (auto simp: set_insert_sorted)

lemma length_Array_sort: "length (Array_sort cmp xs) = length xs"
  unfolding Array_sort_def by (induction xs) (auto simp: length_insert_sorted)










subsection \<open>The scores of the updated findings\<close>

lemma fold_upd_Some:
  "fold (\<lambda>a m. m(pa_item_id a \<mapsto> a)) pas m k = Some a \<Longrightarrow>
   (a \<in> set pas \<and> pa_item_id a = k) \<or> m k = Some a"
  by (induction pas arbitrary: m) (fastforce split: if_splits)+

lemma fold_upd_None:
  "fold (\<lambda>a m. m(pa_item_id a \<mapsto> a)) pas m k = None \<longleftrightarrow>
   (k \<notin> pa_item_id ` set pas \<and> m k = None)"
  by (induction pas arbitrary: m) auto

lemma productAnalysisMap_Some:
  "productAnalysisMap pas k = Some a \<Longrightarrow> a \<in> set pas \<and> pa_item_id a = k"
  unfolding productAnalysisMap_def using fold_upd_Some [of pas Map.empty k a] by simp

lemma productAnalysisMap_None:
  "productAnalysisMap pas k = None \<longleftrightarrow> k \<notin> pa_item_id ` set pas"
  unfolding productAnalysisMap_def by (simp add: fold_upd_None)

lemma placeholder_score: "similarity_score (ebayProductToFinding p) = JNumber (Finite 0)"
  by (simp add: ebayProductToFinding_def)

lemma finding_item_id: "item_id (metadata (ebayProductToFinding p)) = itemId p"
  by (simp add: ebayProductToFinding_def)

lemma update_keeps_item_id: "item_id (metadata (update_finding m f)) = item_id (metadata f)"
  by (simp add: update_finding_def split: option.splits)

lemma updated_item_ids:
  "map (item_id \<circ> metadata) (updatedFindings a (map ebayProductToFinding ps)) = map itemId ps"
  by (simp add: updatedFindings_def update_keeps_item_id finding_item_id o_def)

lemma update_finding_cases:
  assumes "similarity_score f = JNumber (Finite 0)"
  shows "if has_entry a f
         then resolved_by a (update_finding (productAnalysisMap (analyses_of a)) f)
         else similarity_score (update_finding (productAnalysisMap (analyses_of a)) f) = JNumber (Finite 0)"
proof (cases "productAnalysisMap (analyses_of a) (item_id (metadata f))")
  case None
  then have "\<not> has_entry a f"
    by (force simp: productAnalysisMap_None has_entry_def list_ex_iff image_iff)
  then show ?thesis using None assms by (simp add: update_finding_def)
next
  case (Some p)
  then have p: "p \<in> set (analyses_of a)" "pa_item_id p = item_id (metadata f)"
    using productAnalysisMap_Some by blast+
  then have "has_entry a f"
    by (auto simp: has_entry_def list_ex_iff)
  moreover have "resolved_by a (update_finding (productAnalysisMap (analyses_of a)) f)"
    using Some p by (auto simp: resolved_by_def update_finding_def list_ex_iff)
  ultimately show ?thesis by simp
qed

lemma has_entry_update: "has_entry a (update_finding m f) = has_entry a f"
  by (simp add: has_entry_def update_keeps_item_id)

lemma updated_scored_or_placeholder:
  assumes "g \<in> set (updatedFindings a (map ebayProductToFinding ps))"
  shows "if has_entry a g then resolved_by a g else similarity_score g = JNumber (Finite 0)"
proof -
  from assms obtain p where
    g: "g = update_finding (productAnalysisMap (analyses_of a)) (ebayProductToFinding p)"
    by (auto simp: updatedFindings_def)
  show ?thesis
    unfolding g has_entry_update
    by (rule update_finding_cases) (rule placeholder_score)
qed

lemma updated_in_range:
  assumes "list_all (\<lambda>p. score_in_unit (pa_similarity_score p)) (analyses_of a)"
    and "g \<in> set (updatedFindings a (map ebayProductToFinding ps))"
  shows "score_in_unit (similarity_score g)"
proof -
  have "if has_entry a g then resolved_by a g else similarity_score g = JNumber (Finite 0)"
    using assms(2) by (rule updated_scored_or_placeholder)
  then show ?thesis
    using assms(1)
    by (auto simp: resolved_by_def list_ex_iff list_all_iff score_in_unit_def in_unit_def
             split: if_splits)
qed



subsection \<open>The claims about the agent\<close>

text \<open>
  C4: when the eBay credentials are not configured, the agent returns a result with
  confidence 0, no findings and a summary that is not empty (the credential status
  message), and the module state is what it was: no external call has been made and the
  token cache is untouched. The agent is a total function, so nothing is thrown.
\<close>

theorem unconfigured_zero_confidence:
  assumes "\<not> isEbayConfigured w"
  shows "confidence (fst (runRetailSearchAgent request w s)) = 0
       \<and> findings (fst (runRetailSearchAgent request w s)) = []
       \<and> summary (fst (runRetailSearchAgent request w s)) = getCredentialStatus w
       \<and> summary (fst (runRetailSearchAgent request w s)) \<noteq> []
       \<and> snd (runRetailSearchAgent request w s) = s"
  using assms by (simp add: agent_unconfigured getCredentialStatus_def)

theorem unconfigured_zero_confidence_witness:
  "\<not> isEbayConfigured unconfigured_world
   \<and> confidence (fst (runRetailSearchAgent example_request unconfigured_world initial_state)) = 0
   \<and> findings (fst (runRetailSearchAgent example_request unconfigured_world initial_state)) = []
   \<and> summary (fst (runRetailSearchAgent example_request unconfigured_world initial_state)) \<noteq> []
   \<and> snd (runRetailSearchAgent example_request unconfigured_world initial_state) = initial_state"
proof -
  have h: "\<not> isEbayConfigured unconfigured_world"
    by (simp add: isEbayConfigured_def unconfigured_world_def example_world_def truthy_def)
  show ?thesis
    using h unconfigured_zero_confidence [OF h, of example_request initial_state]
    by blast
qed

text \<open>
  C3: when the credentials are configured and the search succeeds with no products, the
  agent returns \<open>is_novel = true\<close> with confidence 0.7, which is below 1, and no
  findings. The state it returns is the one the search left, and the calls made since
  the start do not include a call of the scoring oracle.
\<close>

theorem no_candidates_weak_novelty:
  assumes "isEbayConfigured w"
    and "searchSimilarProducts (invention_name request) (rq_description request)
           (key_features request) w s = (ebayResult, s1)"
    and "success ebayResult" and "products ebayResult = []"
  shows "is_novel (fst (runRetailSearchAgent request w s))
       \<and> confidence (fst (runRetailSearchAgent request w s)) = 0.7
       \<and> confidence (fst (runRetailSearchAgent request w s)) < 1
       \<and> findings (fst (runRetailSearchAgent request w s)) = []
       \<and> snd (runRetailSearchAgent request w s) = s1
       \<and> (\<exists>ext. calls (snd (runRetailSearchAgent request w s)) = calls s @ ext
                \<and> ClaudeMessagesCreate \<notin> set ext)"
proof -
  have run: "runRetailSearchAgent request w s =
     (\<lparr>agent_type = ''retail_search'', is_novel = True, confidence = 0.7, findings = [],
       summary = ''No similar products found on eBay for \"'' @ searchQuery ebayResult
                 @ ''\". This suggests the invention may be novel in the retail marketplace, though further research on other platforms is recommended.'',
       truth_scores =
         \<lparr>objective_truth = 0.8, practical_truth = 0.7, completeness = 0.5,
          contextual_scope = 0.8\<rparr>,
       search_query_used = searchQuery ebayResult, timestamp = new_Date w\<rparr>, s1)"
    using assms by (rule agent_no_products)
  have "\<exists>ext. calls s1 = calls s @ ext \<and> ClaudeMessagesCreate \<notin> set ext"
    using assms(2) unfolding searchSimilarProducts_def by (rule searchEbay_calls)
  then show ?thesis unfolding run by simp
qed

theorem no_candidates_weak_novelty_witness:
  "isEbayConfigured empty_world
   \<and> success (fst (searchSimilarProducts ''Solar Phone Case'' ''A phone case that charges'' None
                     empty_world initial_state))
   \<and> products (fst (searchSimilarProducts ''Solar Phone Case'' ''A phone case that charges'' None
                     empty_world initial_state)) = []
   \<and> is_novel (fst (runRetailSearchAgent example_request empty_world initial_state))
   \<and> confidence (fst (runRetailSearchAgent example_request empty_world initial_state)) < 1
   \<and> findings (fst (runRetailSearchAgent example_request empty_world initial_state)) = []"
proof -
  let ?e = "searchSimilarProducts (invention_name example_request) (rq_description example_request)
              (key_features example_request) empty_world initial_state"
  have h1: "isEbayConfigured empty_world" by code_simp
  have h2: "?e = (fst ?e, snd ?e)" by simp
  have h3: "success (fst ?e)" by code_simp
  have h4: "products (fst ?e) = []" by code_simp
  have rq: "invention_name example_request = ''Solar Phone Case''"
    "rq_description example_request = ''A phone case that charges''"
    "key_features example_request = None"
    by (simp_all add: example_request_def)
  show ?thesis
    using h1 h3 h4 no_candidates_weak_novelty [OF h1 h2 h3 h4]
    unfolding rq by blast
qed

text \<open>
  C1: when phase 1 has found products and the oracle fails (the call throws, the reply
  is not a text, or the text cannot be parsed), the agent still returns a result: the
  findings of phase 1 in their order, each with the score 0 it was created with, the
  fixed confidence 0.3, \<open>is_novel = false\<close>, and the summary that says how many
  products were found, that the analysis failed and that manual review is recommended.
  The agent is a total function: the failure is a value handled inside it and is not
  passed on to the caller.
\<close>

theorem oracle_failure_degrades:
  assumes "isEbayConfigured w"
    and "searchSimilarProducts (invention_name request) (rq_description request)
           (key_features request) w s = (ebayResult, s1)"
    and "success ebayResult" and "products ebayResult \<noteq> []"
    and "oracle_failed w"
  shows "findings (fst (runRetailSearchAgent request w s))
           = map ebayProductToFinding (products ebayResult)
       \<and> list_all (\<lambda>f. similarity_score f = JNumber (Finite 0)) (findings (fst (runRetailSearchAgent request w s)))
       \<and> confidence (fst (runRetailSearchAgent request w s)) = 0.3
       \<and> \<not> is_novel (fst (runRetailSearchAgent request w s))
       \<and> summary (fst (runRetailSearchAgent request w s))
           = ''Found '' @ nat_to_string (length (products ebayResult))
             @ '' potentially similar products on eBay, but analysis failed. Manual review recommended.''
       \<and> agent_type (fst (runRetailSearchAgent request w s)) = ''retail_search''
       \<and> search_query_used (fst (runRetailSearchAgent request w s)) = searchQuery ebayResult"
proof -
  have none: "oracle_reply w = None"
    using assms(5) by (simp add: oracle_failed_def)
  have run: "runRetailSearchAgent request w s =
     (analysis_failed w ebayResult (map ebayProductToFinding (products ebayResult)),
      s1\<lparr>calls := calls s1 @ [ClaudeMessagesCreate]\<rparr>)"
    using assms(1-4) none by (rule agent_oracle_failed)
  show ?thesis
    unfolding run
    by (simp add: analysis_failed_def list_all_iff placeholder_score)
qed

theorem oracle_failure_degrades_witness:
  "isEbayConfigured failing_world
   \<and> success (fst (searchSimilarProducts ''Solar Phone Case'' ''A phone case that charges'' None
                     failing_world initial_state))
   \<and> products (fst (searchSimilarProducts ''Solar Phone Case'' ''A phone case that charges'' None
                     failing_world initial_state)) \<noteq> []
   \<and> oracle_failed failing_world
   \<and> confidence (fst (runRetailSearchAgent example_request failing_world initial_state)) = 0.3
   \<and> \<not> is_novel (fst (runRetailSearchAgent example_request failing_world initial_state))
   \<and> list_all (\<lambda>f. similarity_score f = JNumber (Finite 0))
        (findings (fst (runRetailSearchAgent example_request failing_world initial_state)))"
proof -
  let ?e = "searchSimilarProducts (invention_name example_request) (rq_description example_request)
              (key_features example_request) failing_world initial_state"
  have h1: "isEbayConfigured failing_world" by code_simp
  have h2: "?e = (fst ?e, snd ?e)" by simp
  have h3: "success (fst ?e)" by code_simp
  have h4: "products (fst ?e) \<noteq> []" by code_simp
  have h5: "oracle_failed failing_world" by code_simp
  have rq: "invention_name example_request = ''Solar Phone Case''"
    "rq_description example_request = ''A phone case that charges''"
    "key_features example_request = None"
    by (simp_all add: example_request_def)
  show ?thesis
    using h1 h3 h4 h5 oracle_failure_degrades [OF h1 h2 h3 h4 h5]
    unfolding rq by blast
qed




text \<open>
  C2, as stated: every finding the agent returns carries a score that the oracle
  produced for it. This fails when the oracle fails: the findings of phase 1 are
  returned, and none of them has a score from the oracle.
\<close>

theorem unscored_findings_exposed_counterexample:
  "\<not> list_all (oracle_resolved failing_world)
       (findings (fst (runRetailSearchAgent example_request failing_world initial_state)))"
  by code_simp

text \<open>
  C2, amended: when the search has succeeded, every product of the provider has its
  finding in the result, none is left out. A finding carries a score the oracle gave for
  its item when the parsed reply has an entry for that item; otherwise, when the oracle
  has failed or its reply has no entry for the item, it carries the score 0 that
  \<open>ebayProductToFinding\<close> gave it.
\<close>

theorem findings_scored_or_placeholder:
  assumes "isEbayConfigured w"
    and "searchSimilarProducts (invention_name request) (rq_description request)
           (key_features request) w s = (ebayResult, s1)"
    and "success ebayResult"
  shows "length (findings (fst (runRetailSearchAgent request w s))) = length (products ebayResult)
       \<and> set (map (item_id \<circ> metadata) (findings (fst (runRetailSearchAgent request w s))))
           = set (map itemId (products ebayResult))
       \<and> (\<forall>f \<in> set (findings (fst (runRetailSearchAgent request w s))).
             if oracle_has_entry w f then oracle_resolved w f else similarity_score f = JNumber (Finite 0))"
proof (cases "products ebayResult = []")
  case True
  then show ?thesis
    using agent_no_products [OF assms(1,2,3) True] by simp
next
  case False
  note nonempty = this
  let ?fs = "map ebayProductToFinding (products ebayResult)"
  show ?thesis
  proof (cases "oracle_reply w")
    case None
    have run: "findings (fst (runRetailSearchAgent request w s)) = ?fs"
      using agent_oracle_failed [OF assms nonempty None] by (simp add: analysis_failed_def)
    show ?thesis
      unfolding run
      by (simp add: None oracle_has_entry_def placeholder_score finding_item_id o_def)
  next
    case (Some a)
    have run: "findings (fst (runRetailSearchAgent request w s))
        = Array_sort (by_similarity w) (updatedFindings a ?fs)"
      using agent_scored [OF assms nonempty Some] by simp
    have len: "length (Array_sort (by_similarity w) (updatedFindings a ?fs)) = length (products ebayResult)"
      by (simp add: length_Array_sort updatedFindings_def)
    have "set (map (item_id \<circ> metadata) (Array_sort (by_similarity w) (updatedFindings a ?fs)))
        = set (map (item_id \<circ> metadata) (updatedFindings a ?fs))"
      by (simp only: set_map set_Array_sort)
    then have ids: "set (map (item_id \<circ> metadata) (Array_sort (by_similarity w) (updatedFindings a ?fs)))
        = set (map itemId (products ebayResult))"
      by (simp only: updated_item_ids)
    have each: "\<forall>f \<in> set (Array_sort (by_similarity w) (updatedFindings a ?fs)).
        if oracle_has_entry w f then oracle_resolved w f else similarity_score f = JNumber (Finite 0)"
      using updated_scored_or_placeholder [of _ a "products ebayResult"]
      by (simp add: set_Array_sort oracle_has_entry_def oracle_resolved_def Some)
    show ?thesis
      unfolding run using len ids each by blast
  qed
qed

theorem findings_scored_or_placeholder_witness:
  "isEbayConfigured example_world
   \<and> success (fst (searchSimilarProducts ''Solar Phone Case'' ''A phone case that charges'' None
                     example_world initial_state))
   \<and> length (findings (fst (runRetailSearchAgent example_request example_world initial_state)))
       = length (products (fst (searchSimilarProducts ''Solar Phone Case''
                                  ''A phone case that charges'' None example_world initial_state)))
   \<and> map (\<lambda>f. (item_id (metadata f), oracle_has_entry example_world f,
                oracle_resolved example_world f, similarity_score f))
        (findings (fst (runRetailSearchAgent example_request example_world initial_state)))
       = [(''222'', True, True, JNumber (Finite 0.875)), (''111'', False, False, JNumber (Finite 0)),
          (''333'', False, False, JNumber (Finite 0))]"
proof -
  let ?e = "searchSimilarProducts (invention_name example_request) (rq_description example_request)
              (key_features example_request) example_world initial_state"
  have h1: "isEbayConfigured example_world" by code_simp
  have h2: "?e = (fst ?e, snd ?e)" by simp
  have h3: "success (fst ?e)" by code_simp
  have rq: "invention_name example_request = ''Solar Phone Case''"
    "rq_description example_request = ''A phone case that charges''"
    "key_features example_request = None"
    by (simp_all add: example_request_def)
  have ev: "map (\<lambda>f. (item_id (metadata f), oracle_has_entry example_world f,
                oracle_resolved example_world f, similarity_score f))
        (findings (fst (runRetailSearchAgent example_request example_world initial_state)))
       = [(''222'', True, True, JNumber (Finite 0.875)), (''111'', False, False, JNumber (Finite 0)),
          (''333'', False, False, JNumber (Finite 0))]"
    by code_simp
  show ?thesis
    using h1 h3 ev findings_scored_or_placeholder [OF h1 h2 h3]
    unfolding rq by blast
qed

text \<open>
  C5, as stated: on every branch the confidence, the four truth scores and the score of
  every finding lie between 0 and 1. This fails on the branch that adopts the oracle's
  output: an oracle that reports a confidence of 5 has it returned as it is.
\<close>

theorem oracle_confidence_unchecked_counterexample:
  "\<not> result_in_range (fst (runRetailSearchAgent example_request overconfident_world initial_state))"
  by code_simp

text \<open>The ranges, branch by branch.\<close>

lemma in_range_unless_oracle:
  assumes "runRetailSearchAgent request w s = (r, s')"
  shows "result_in_range r
       \<or> (\<exists>a. oracle_reply w = Some a \<and> \<not> analysis_in_range a
              \<and> confidence r = ar_confidence a \<and> truth_scores r = ar_truth_scores a)"
proof (cases "isEbayConfigured w")
  case False
  then have "result_in_range r"
    using assms
    by (auto simp: agent_unconfigured result_in_range_def scores_in_unit_def zero_scores_def
        in_unit_def)
  then show ?thesis ..
next
  case True
  obtain ebayResult s1 where phase1:
    "searchSimilarProducts (invention_name request) (rq_description request)
       (key_features request) w s = (ebayResult, s1)"
    by (cases "searchSimilarProducts (invention_name request) (rq_description request)
       (key_features request) w s")
  show ?thesis
  proof (cases "success ebayResult")
    case False
    then have "result_in_range r"
      using assms agent_provider_error [OF True phase1 False]
      by (auto simp: result_in_range_def scores_in_unit_def zero_scores_def in_unit_def)
    then show ?thesis ..
  next
    case True
    note found = this
    show ?thesis
    proof (cases "products ebayResult = []")
      case True
      then have "result_in_range r"
        using assms agent_no_products [OF \<open>isEbayConfigured w\<close> phase1 found True]
        by (auto simp: result_in_range_def scores_in_unit_def in_unit_def)
      then show ?thesis ..
    next
      case False
      note nonempty = this
      let ?fs = "map ebayProductToFinding (products ebayResult)"
      show ?thesis
      proof (cases "oracle_reply w")
        case None
        have "r = analysis_failed w ebayResult ?fs"
          using assms agent_oracle_failed [OF \<open>isEbayConfigured w\<close> phase1 found nonempty None]
          by simp
        then have "result_in_range r"
          by (simp add: analysis_failed_def result_in_range_def scores_in_unit_def
              score_in_unit_def in_unit_def list_all_iff placeholder_score)
        then show ?thesis ..
      next
        case (Some a)
        have r: "confidence r = ar_confidence a" "truth_scores r = ar_truth_scores a"
          "findings r = Array_sort (by_similarity w) (updatedFindings a ?fs)"
          using assms agent_scored [OF \<open>isEbayConfigured w\<close> phase1 found nonempty Some]
          by auto
        show ?thesis
        proof (cases "analysis_in_range a")
          case True
          then have "list_all (\<lambda>f. score_in_unit (similarity_score f)) (findings r)"
            unfolding r list_all_iff set_Array_sort
            using updated_in_range [of a _ "products ebayResult"]
            by (auto simp: analysis_in_range_def)
          then have "result_in_range r"
            using True r by (simp add: result_in_range_def analysis_in_range_def)
          then show ?thesis ..
        next
          case False
          then show ?thesis using Some r by blast
        qed
      qed
    qed
  qed
qed

text \<open>
  C5, amended: the confidence, the four truth scores and the score of every finding of a
  result lie between 0 and 1, unless the result adopts a parsed reply of the oracle
  whose own confidence, truth scores or product scores do not; the agent copies the
  oracle's values without checking them.
\<close>

theorem scores_in_unit_interval_unless_oracle:
  "result_in_range (fst (runRetailSearchAgent request w s))
   \<or> (\<exists>a. oracle_reply w = Some a \<and> \<not> analysis_in_range a
          \<and> confidence (fst (runRetailSearchAgent request w s)) = ar_confidence a
          \<and> truth_scores (fst (runRetailSearchAgent request w s)) = ar_truth_scores a)"
proof -
  have "runRetailSearchAgent request w s
      = (fst (runRetailSearchAgent request w s), snd (runRetailSearchAgent request w s))"
    by simp
  then show ?thesis by (rule in_range_unless_oracle)
qed

theorem scores_in_unit_interval_unless_oracle_witness:
  "oracle_reply example_world = Some example_analysis
   \<and> analysis_in_range example_analysis
   \<and> result_in_range (fst (runRetailSearchAgent example_request example_world initial_state))"
proof -
  have reply: "oracle_reply example_world = Some example_analysis" by code_simp
  have ok: "analysis_in_range example_analysis" by code_simp
  show ?thesis
    using reply ok
      scores_in_unit_interval_unless_oracle [of example_request example_world initial_state]
    by auto
qed

section \<open>Properties of the search cache\<close>

subsection \<open>The sweep\<close>

lemma delete_where_kept: "fst (delete_where c t) = filter (\<lambda>r. \<not> c r) t"
  by (induction t) (auto split: prod.splits)

lemma delete_where_count: "snd (delete_where c t) = int (length (filter c t))"
  by (induction t) (auto split: prod.splits)

lemma is_expired_iff: "is_expired now r \<longleftrightarrow> (\<exists>e. expires_at r = Some e \<and> e < now)"
  by (simp add: is_expired_def split: option.splits)

lemma filter_after_compl: "filter P (filter (\<lambda>x. \<not> P x) xs) = []"
  by (induction xs) auto

lemma filter_compl_idem:
  "filter (\<lambda>x. \<not> P x) (filter (\<lambda>x. \<not> P x) xs) = filter (\<lambda>x. \<not> P x) xs"
  by (induction xs) auto

text \<open>
  C6: for every table and clock reading, the sweep leaves exactly the rows that do not
  have an expiry earlier than the clock reading (rows with no expiry among them), each
  as it was and in the order they had; it returns the number of rows whose expiry is
  earlier than the clock reading, which is the number of rows that are gone; and a
  second sweep at the same clock reading changes nothing and returns 0.
\<close>

theorem cleanup_exact:
  "fst (cleanup_expired_cache now t) = filter (\<lambda>r. \<not> (\<exists>e. expires_at r = Some e \<and> e < now)) t
   \<and> snd (cleanup_expired_cache now t)
       = int (length (filter (\<lambda>r. \<exists>e. expires_at r = Some e \<and> e < now) t))
   \<and> snd (cleanup_expired_cache now t)
       = int (length t) - int (length (fst (cleanup_expired_cache now t)))
   \<and> cleanup_expired_cache now (fst (cleanup_expired_cache now t))
       = (fst (cleanup_expired_cache now t), 0)"
proof -
  let ?gone = "\<lambda>r. \<exists>e. expires_at r = Some e \<and> e < now"
  have cond: "is_expired now = ?gone"
    by (rule ext) (rule is_expired_iff)
  have kept: "fst (cleanup_expired_cache now t) = filter (\<lambda>r. \<not> ?gone r) t"
    by (simp add: cleanup_expired_cache_def delete_where_kept cond)
  have count: "snd (cleanup_expired_cache now t) = int (length (filter ?gone t))"
    by (simp add: cleanup_expired_cache_def delete_where_count cond)
  have "length t = length (filter ?gone t) + length (filter (\<lambda>r. \<not> ?gone r) t)"
    by (rule sum_length_filter_compl [symmetric])
  then have diff: "snd (cleanup_expired_cache now t)
      = int (length t) - int (length (fst (cleanup_expired_cache now t)))"
    using kept count by simp
  have again_kept:
    "fst (cleanup_expired_cache now (filter (\<lambda>r. \<not> ?gone r) t)) = filter (\<lambda>r. \<not> ?gone r) t"
    unfolding cleanup_expired_cache_def delete_where_kept cond by (rule filter_compl_idem)
  have again_count: "snd (cleanup_expired_cache now (filter (\<lambda>r. \<not> ?gone r) t)) = 0"
    unfolding cleanup_expired_cache_def delete_where_count cond filter_after_compl by simp
  have again: "cleanup_expired_cache now (fst (cleanup_expired_cache now t))
      = (fst (cleanup_expired_cache now t), 0)"
    using again_kept again_count kept by (simp add: prod_eq_iff)
  show ?thesis using kept count diff again by blast
qed

theorem cleanup_exact_witness:
  "map row_id (fst (cleanup_expired_cache 100 example_table)) = [2, 3]
   \<and> snd (cleanup_expired_cache 100 example_table) = 1
   \<and> cleanup_expired_cache 100 (fst (cleanup_expired_cache 100 example_table))
       = (fst (cleanup_expired_cache 100 example_table), 0)"
proof -
  have ids: "map row_id (fst (cleanup_expired_cache 100 example_table)) = [2, 3]" by code_simp
  have n: "snd (cleanup_expired_cache 100 example_table) = 1" by code_simp
  show ?thesis
    using ids n cleanup_exact [of 100 example_table] by blast
qed

subsection \<open>One entry for each fingerprint\<close>

lemma hashes_put_update:
  "map query_hash (map (\<lambda>r. if query_hash r = h
      then r\<lparr>results := res, result_count := n, source_api := api, expires_at := e,
             updated_at := u\<rparr> else r) t) = map query_hash t"
  by (induction t) auto

lemma ids_put_update:
  "map row_id (map (\<lambda>r. if query_hash r = h
      then r\<lparr>results := res, result_count := n, source_api := api, expires_at := e,
             updated_at := u\<rparr> else r) t) = map row_id t"
  by (induction t) auto

lemma counts_put_update:
  "list_all (\<lambda>r. result_count r = int (length (results r))) t \<Longrightarrow>
   list_all (\<lambda>r. result_count r = int (length (results r)))
     (map (\<lambda>r. if query_hash r = h
        then r\<lparr>results := res, result_count := int (length res), source_api := api,
               expires_at := e, updated_at := u\<rparr> else r) t)"
  by (induction t) auto

lemma inv_put: "store_inv t \<Longrightarrow> store_inv (cache_put fp now i ty p res api ttl t)"
proof -
  assume inv: "store_inv t"
  let ?h = "fp ty p"
  show ?thesis
  proof (cases "\<exists>r \<in> set t. query_hash r = ?h")
    case True
    then show ?thesis
      using inv unfolding store_inv_def cache_put_def Let_def
      by (simp only: if_True hashes_put_update ids_put_update counts_put_update simp_thms)
  next
    case False
    note absent = this
    show ?thesis
    proof (cases "\<exists>r \<in> set t. row_id r = i")
      case True
      then show ?thesis using inv absent by (simp add: cache_put_def)
    next
      case False
      then show ?thesis
        using inv absent unfolding store_inv_def cache_put_def Let_def
        by (auto simp: image_iff)
    qed
  qed
qed

lemma inv_delete: "store_inv t \<Longrightarrow> store_inv (fst (delete_where c t))"
  unfolding store_inv_def delete_where_kept
  by (auto simp: list_all_iff distinct_map_filter)

lemma inv_op: "store_inv t \<Longrightarrow> store_inv (apply_op fp op t)"
  by (cases "(fp, op, t)" rule: apply_op.cases)
     (auto simp: inv_put inv_delete cache_invalidate_def cleanup_expired_cache_def)

lemma inv_fold: "store_inv t \<Longrightarrow> store_inv (fold (apply_op fp) ops t)"
  by (induction ops arbitrary: t) (auto simp: inv_op)

text \<open>
  C7: after any sequence of put, get, invalidate and sweep operations on the empty
  store, at any clock readings and in any order (calls made concurrently take effect in
  some order), no two entries have the same fingerprint, no two have the same
  identifier, and every entry is whole: its count is the number of its results.
\<close>

theorem one_entry_per_fingerprint:
  "distinct (map query_hash (run_ops fp ops))
   \<and> distinct (map row_id (run_ops fp ops))
   \<and> list_all (\<lambda>r. result_count r = int (length (results r))) (run_ops fp ops)"
proof -
  have "store_inv []" by (simp add: store_inv_def)
  then have "store_inv (run_ops fp ops)"
    unfolding run_ops_def by (rule inv_fold)
  then show ?thesis by (simp add: store_inv_def)
qed

theorem one_entry_per_fingerprint_witness:
  "map (\<lambda>r. (query_hash r, results r, result_count r, expires_at r))
       (run_ops example_fp (take 2 example_ops))
     = [(''retail:solar phone case'', [''item3''], 1, Some 1011)]
   \<and> map query_hash (run_ops example_fp example_ops) = [''patent:solar phone case'']
   \<and> distinct (map query_hash (run_ops example_fp example_ops))"
proof -
  have a: "map (\<lambda>r. (query_hash r, results r, result_count r, expires_at r))
       (run_ops example_fp (take 2 example_ops))
     = [(''retail:solar phone case'', [''item3''], 1, Some 1011)]"
    by code_simp
  have b: "map query_hash (run_ops example_fp example_ops) = [''patent:solar phone case'']"
    by code_simp
  show ?thesis
    using a b one_entry_per_fingerprint [of example_fp example_ops] by blast
qed

end
